theory Spec2Isabelle
  imports Complex_Main
begin

section \<open>The module flappybird.py\<close>

text \<open>
  A shallow embedding of \<^verbatim>\<open>src/flappybird.py\<close>. Classes are records, the
  objects the game mutates are passed and returned explicitly, and every exception the
  Python raises is a value \<open>Inl e\<close> of a sum type. Python's \<^verbatim>\<open>int\<close> is
  \<open>int\<close>; Python's \<^verbatim>\<open>float\<close> is idealised as \<open>real\<close>. The attributes
  \<^verbatim>\<open>x\<close> and \<^verbatim>\<open>y\<close> of the two classes are the record fields
  \<open>bird_x\<close>, \<open>bird_y\<close> and \<open>pipe_x\<close>, the loop variable \<^verbatim>\<open>done\<close> of
  \<^verbatim>\<open>main\<close> is the field \<open>game_done\<close>, and a class constant such as
  \<^verbatim>\<open>Bird.HEIGHT\<close> is written \<open>Bird_HEIGHT\<close>. Images, fonts and the display
  surface belong to pygame and carry no game state; of the rendering only the blit
  positions of a pipe image are kept.
\<close>

subsection \<open>Exceptions and values\<close>

datatype error = NameError string | TypeError string

datatype pyval = PyInt int | PyObject string

text \<open>\<^verbatim>\<open>int(v)\<close> on a float truncates towards zero.\<close>

definition py_int :: "real \<Rightarrow> int" where
  "py_int v = (if 0 \<le> v then \<lfloor>v\<rfloor> else \<lceil>v\<rceil>)"

text \<open>\<^verbatim>\<open>a % b\<close> on floats, for a divisor that is not zero.\<close>

definition py_fmod :: "real \<Rightarrow> real \<Rightarrow> real" where
  "py_fmod a b = a - b * of_int \<lfloor>a / b\<rfloor>"

text \<open>Calling an integer literal: \<^verbatim>\<open>2 (a, b)\<close> raises at run time.\<close>

definition call_int :: "int \<Rightarrow> pyval list \<Rightarrow> error + pyval" where
  "call_int n args = Inl (TypeError ''int object is not callable'')"

subsection \<open>Module constants (lines 14-17)\<close>

definition FPS :: int where
  "FPS = 60"

definition FRAME_ANIMATION_WIDTH :: int where
  "FRAME_ANIMATION_WIDTH = 3"

definition WIN_WIDTH :: int where
  "WIN_WIDTH = 284 * 2"

definition WIN_HEIGHT :: int where
  "WIN_HEIGHT = 512"

subsection \<open>Class constants of Bird (lines 44-47) and PipePair (lines 137-139)\<close>

definition Bird_WIDTH :: int where
  "Bird_WIDTH = 32"

definition Bird_HEIGHT :: int where
  "Bird_HEIGHT = 32"

definition FRAME_DROP_HEIGHT :: int where
  "FRAME_DROP_HEIGHT = 3"

definition FRAME_JUMP_HEIGHT :: int where
  "FRAME_JUMP_HEIGHT = 5"

definition JUMP_STEPS :: int where
  "JUMP_STEPS = 20"

definition PipePair_WIDTH :: int where
  "PipePair_WIDTH = 80"

definition PIECE_HEIGHT :: int where
  "PIECE_HEIGHT = 32"

definition ADD_INTERVAL :: int where
  "ADD_INTERVAL = 3000"

subsection \<open>Name resolution\<close>

text \<open>
  A name that a function body reads but never assigns is looked up in the module's
  globals and then in the builtins; a class body is not an enclosing scope of its
  methods. \<open>module_globals\<close> lists what the module binds at top level, in order: its
  imports, the names it takes from \<^verbatim>\<open>pygame.locals\<close> (which exports the
  constants in capitals, \<^verbatim>\<open>Rect\<close> and \<^verbatim>\<open>Color\<close>; those the module reads
  are listed), its four constants, two classes and four functions. \<open>builtin_names\<close>
  lists the builtins the module reads.
\<close>

definition module_globals :: "(string \<times> pyval) list" where
  "module_globals =
    [(''math'', PyObject ''module''), (''os'', PyObject ''module''),
     (''randint'', PyObject ''function''), (''deque'', PyObject ''class''),
     (''pygame'', PyObject ''module''),
     (''Rect'', PyObject ''class''), (''Color'', PyObject ''class''),
     (''SRCALPHA'', PyObject ''constant''), (''USEREVENT'', PyObject ''constant''),
     (''QUIT'', PyObject ''constant''), (''KEYUP'', PyObject ''constant''),
     (''MOUSEBUTTONUP'', PyObject ''constant''), (''K_ESCAPE'', PyObject ''constant''),
     (''K_PAUSE'', PyObject ''constant''), (''K_p'', PyObject ''constant''),
     (''K_UP'', PyObject ''constant''), (''K_RETURN'', PyObject ''constant''),
     (''K_SPACE'', PyObject ''constant''),
     (''FPS'', PyInt FPS), (''FRAME_ANIMATION_WIDTH'', PyInt FRAME_ANIMATION_WIDTH),
     (''WIN_WIDTH'', PyInt WIN_WIDTH), (''WIN_HEIGHT'', PyInt WIN_HEIGHT),
     (''Bird'', PyObject ''class''), (''PipePair'', PyObject ''class''),
     (''load_images'', PyObject ''function''), (''frames_to_msec'', PyObject ''function''),
     (''msec_to_frames'', PyObject ''function''), (''main'', PyObject ''function'')]"

definition builtin_names :: "(string \<times> pyval) list" where
  "builtin_names =
    [(''int'', PyObject ''class''), (''float'', PyObject ''class''),
     (''str'', PyObject ''class''), (''super'', PyObject ''class''),
     (''range'', PyObject ''class''), (''len'', PyObject ''function''),
     (''any'', PyObject ''function''), (''print'', PyObject ''function'')]"

definition load_global :: "string \<Rightarrow> error + pyval" where
  "load_global n =
    (case map_of module_globals n of
       Some v \<Rightarrow> Inr v
     | None \<Rightarrow> (case map_of builtin_names n of
                   Some v \<Rightarrow> Inr v
                 | None \<Rightarrow> Inl (NameError n)))"

text \<open>\<^verbatim>\<open>v > 0\<close>: an ordering comparison of a class, function or module with a number raises.\<close>

definition greater_zero :: "pyval \<Rightarrow> error + bool" where
  "greater_zero v =
    (case v of
       PyInt i \<Rightarrow> Inr (0 < i)
     | PyObject k \<Rightarrow> Inl (TypeError ''> not supported''))"

subsection \<open>Bird (lines 20-107)\<close>

record Bird =
  bird_x :: int
  bird_y :: real
  steps_to_jump :: int

text \<open>
  \<^verbatim>\<open>Bird.__init__(self, x, y, steps_to_jump, images)\<close> binds four positional
  arguments; a call with another number of them raises.
\<close>

definition Bird_init :: "pyval list \<Rightarrow> error + Bird" where
  "Bird_init args =
    (case args of
       [PyInt x0, PyInt y0, PyInt s0, images] \<Rightarrow>
         Inr \<lparr>bird_x = x0, bird_y = of_int y0, steps_to_jump = s0\<rparr>
     | _ \<Rightarrow> Inl (TypeError ''__init__ arguments''))"

text \<open>Lines 82-83: the fraction of the jump that is done when \<open>s\<close> steps are left.\<close>

definition frac_jump_done :: "int \<Rightarrow> real" where
  "frac_jump_done s = of_int (JUMP_STEPS - s) / of_int JUMP_STEPS"

text \<open>Lines 84-85: the amount subtracted from \<^verbatim>\<open>self.y\<close> in one step of a jump.\<close>

definition jump_delta :: "int \<Rightarrow> real" where
  "jump_delta s = of_int FRAME_JUMP_HEIGHT * (1 - cos (frac_jump_done s * pi))"

text \<open>
  \<^verbatim>\<open>Bird.update\<close> (lines 69-88). The condition on line 81 reads the bare name
  \<^verbatim>\<open>steps_to_jump\<close>, which the method never assigns, so it is a global lookup;
  the two branches read and write the attributes of \<^verbatim>\<open>self\<close>.
\<close>

definition update :: "Bird \<Rightarrow> error + Bird" where
  "update self =
    (case load_global ''steps_to_jump'' of
       Inl e \<Rightarrow> Inl e
     | Inr v \<Rightarrow>
        (case greater_zero v of
           Inl e \<Rightarrow> Inl e
         | Inr c \<Rightarrow>
            (if c then
               Inr (self\<lparr>bird_y := bird_y self - jump_delta (steps_to_jump self),
                          steps_to_jump := steps_to_jump self - 1\<rparr>)
             else
               Inr (self\<lparr>bird_y := bird_y self + of_int FRAME_DROP_HEIGHT\<rparr>))))"

text \<open>Calling \<^verbatim>\<open>update()\<close> \<open>n\<close> times in a row; the first exception ends the run.\<close>

fun update_times :: "nat \<Rightarrow> Bird \<Rightarrow> error + Bird" where
  "update_times 0 b = Inr b"
| "update_times (Suc n) b =
    (case update b of Inl e \<Rightarrow> Inl e | Inr b' \<Rightarrow> update_times n b')"

subsection \<open>Rectangles\<close>

text \<open>
  \<^verbatim>\<open>pygame.Rect\<close> holds four integers; a float coordinate is truncated when the
  rectangle is built. Two rectangles collide when they overlap in both directions, a
  shared edge is no overlap, and a rectangle without area collides with nothing.
  \<^verbatim>\<open>collidelist\<close> returns the index of the first rectangle of the list that
  collides, or \<open>-1\<close>.
\<close>

record Rect =
  rect_x :: int
  rect_y :: int
  rect_w :: int
  rect_h :: int

definition colliderect :: "Rect \<Rightarrow> Rect \<Rightarrow> bool" where
  "colliderect a b =
    (rect_w a \<noteq> 0 \<and> rect_h a \<noteq> 0 \<and> rect_w b \<noteq> 0 \<and> rect_h b \<noteq> 0 \<and>
     min (rect_x a) (rect_x a + rect_w a) < max (rect_x b) (rect_x b + rect_w b) \<and>
     min (rect_y a) (rect_y a + rect_h a) < max (rect_y b) (rect_y b + rect_h b) \<and>
     min (rect_x b) (rect_x b + rect_w b) < max (rect_x a) (rect_x a + rect_w a) \<and>
     min (rect_y b) (rect_y b + rect_h b) < max (rect_y a) (rect_y a + rect_h a))"

fun collidelist_from :: "int \<Rightarrow> Rect \<Rightarrow> Rect list \<Rightarrow> int" where
  "collidelist_from i r [] = - 1"
| "collidelist_from i r (q # qs) =
    (if colliderect r q then i else collidelist_from (i + 1) r qs)"

definition collidelist :: "Rect \<Rightarrow> Rect list \<Rightarrow> int" where
  "collidelist r qs = collidelist_from 0 r qs"

text \<open>The property \<^verbatim>\<open>Bird.rect\<close> (lines 104-107).\<close>

definition rect :: "Bird \<Rightarrow> Rect" where
  "rect self =
    \<lparr>rect_x = bird_x self, rect_y = py_int (bird_y self),
     rect_w = Bird_WIDTH, rect_h = Bird_HEIGHT\<rparr>"

subsection \<open>PipePair (lines 110-207)\<close>

datatype piece = pipe_end_img | pipe_body_img

record PipePair =
  pipe_x :: int
  score_counted :: bool
  image :: "(piece \<times> int) list"
  top_pieces :: int
  bottom_pieces :: int

text \<open>Lines 159-164: \<^verbatim>\<open>int(\<dots> / PipePair.PIECE_HEIGHT)\<close>, a true division.\<close>

definition total_pipe_body_pieces :: int where
  "total_pipe_body_pieces =
    py_int (of_int (WIN_HEIGHT - 3 * Bird_HEIGHT - 3 * PIECE_HEIGHT) / of_int PIECE_HEIGHT)"

text \<open>
  \<^verbatim>\<open>PipePair.__init__\<close> (lines 153-185). The argument \<open>r\<close> is the number that
  \<^verbatim>\<open>randint(1, total_pipe_body_pieces)\<close> returns on line 165. The image is the
  list of the blits in the order the constructor makes them, each with its vertical
  position: the body pieces and the end piece of the bottom pipe, then those of the
  top pipe.
\<close>

definition PipePair_init :: "int \<Rightarrow> PipePair" where
  "PipePair_init r =
    (let bottom = r;
         top = total_pipe_body_pieces - bottom;
         bottom_body = map (\<lambda>i. (pipe_body_img, WIN_HEIGHT - i * PIECE_HEIGHT)) [1..bottom];
         bottom_pipe_end_y = WIN_HEIGHT - bottom * PIECE_HEIGHT;
         bottom_end = [(pipe_end_img, bottom_pipe_end_y - PIECE_HEIGHT)];
         top_body = map (\<lambda>i. (pipe_body_img, i * PIECE_HEIGHT)) [0..top - 1];
         top_pipe_end_y = top * PIECE_HEIGHT;
         top_end = [(pipe_end_img, top_pipe_end_y)]
     in \<lparr>pipe_x = WIN_WIDTH, score_counted = False,
         image = bottom_body @ bottom_end @ top_body @ top_end,
         top_pieces = top + 1, bottom_pieces = bottom + 1\<rparr>)"

definition top_height_px :: "PipePair \<Rightarrow> int" where
  "top_height_px self = top_pieces self * PIECE_HEIGHT"

definition bottom_height_px :: "PipePair \<Rightarrow> int" where
  "bottom_height_px self = bottom_pieces self * PIECE_HEIGHT"

definition collides_with :: "PipePair \<Rightarrow> Rect \<Rightarrow> bool" where
  "collides_with self r =
    (let top_rect = \<lparr>rect_x = pipe_x self, rect_y = 0,
                      rect_w = PipePair_WIDTH, rect_h = top_height_px self\<rparr>;
         bottom_rect = \<lparr>rect_x = pipe_x self, rect_y = WIN_HEIGHT - bottom_height_px self,
                         rect_w = PipePair_WIDTH, rect_h = bottom_height_px self\<rparr>
     in collidelist r [top_rect, bottom_rect] > - 1)"

text \<open>The free space between the two pipes of a pair.\<close>

definition gap_px :: "PipePair \<Rightarrow> int" where
  "gap_px p = WIN_HEIGHT - top_height_px p - bottom_height_px p"

subsection \<open>Time conversion (lines 261-268)\<close>

definition msec_to_frames :: "int \<Rightarrow> real" where
  "msec_to_frames milliseconds = of_int (FPS * milliseconds) / 1000"

subsection \<open>The game loop (lines 271-353)\<close>

text \<open>
  The events a tick can receive from outside, and the events of the queue: those, and
  \<^verbatim>\<open>PipePair.ADD_EVENT\<close>, which only line 303 posts.
\<close>

datatype key = K_ESCAPE | K_PAUSE | K_p | K_UP | K_RETURN | K_SPACE | K_other

datatype input = QUIT | KEYUP key | MOUSEBUTTONUP | OTHER

datatype event = Input input | ADD_EVENT

record Session =
  bird :: Bird
  pipes :: "PipePair list"
  frame_clock :: int
  score :: int
  game_done :: bool
  paused :: bool

text \<open>
  Lines 289-290. The third argument of the call is written \<^verbatim>\<open>2 (images[\<dots>],
  images[\<dots>])\<close>, with no comma after the \<^verbatim>\<open>2\<close>: the arguments are evaluated
  from left to right, and the third is a call of the integer.
\<close>

definition main_bird :: "error + Bird" where
  "main_bird =
    (let a1 = PyInt 50;
         a2 = PyInt (py_int (of_int WIN_HEIGHT / 2 - of_int Bird_HEIGHT / 2))
     in case call_int 2 [PyObject ''bird-wingup'', PyObject ''bird-wingdown''] of
          Inl e \<Rightarrow> Inl e
        | Inr a3 \<Rightarrow> Bird_init [a1, a2, a3])"

text \<open>Lines 292-296: the state with which the loop starts.\<close>

definition initial_session :: "Bird \<Rightarrow> Session" where
  "initial_session b =
    \<lparr>bird = b, pipes = [], frame_clock = 0, score = 0, game_done = False, paused = False\<rparr>"

text \<open>Line 302: whether this tick posts \<^verbatim>\<open>ADD_EVENT\<close>.\<close>

definition posts_add_event :: "Session \<Rightarrow> bool" where
  "posts_add_event s =
    (\<not> (paused s \<or> py_fmod (of_int (frame_clock s)) (msec_to_frames ADD_INTERVAL) \<noteq> 0))"

text \<open>
  Lines 305-316: the events of the tick in queue order. Quitting leaves the loop
  over the events and drops the rest of them. \<open>r\<close> is the draw of a pipe pair
  constructed in this tick.
\<close>

fun handle_events :: "int \<Rightarrow> event list \<Rightarrow> Session \<Rightarrow> Session" where
  "handle_events r [] s = s"
| "handle_events r (e # es) s =
    (if e = Input QUIT \<or> e = Input (KEYUP K_ESCAPE) then
       s\<lparr>game_done := True\<rparr>
     else if e = Input (KEYUP K_PAUSE) \<or> e = Input (KEYUP K_p) then
       handle_events r es (s\<lparr>paused := \<not> paused s\<rparr>)
     else if e = Input MOUSEBUTTONUP \<or> e = Input (KEYUP K_UP) \<or>
             e = Input (KEYUP K_RETURN) \<or> e = Input (KEYUP K_SPACE) then
       handle_events r es (s\<lparr>bird := (bird s)\<lparr>steps_to_jump := JUMP_STEPS\<rparr>\<rparr>)
     else if e = ADD_EVENT then
       handle_events r es (s\<lparr>pipes := pipes s @ [PipePair_init r]\<rparr>)
     else
       handle_events r es s)"

text \<open>Lines 321-324: the check for collisions.\<close>

definition pipe_collision :: "Session \<Rightarrow> bool" where
  "pipe_collision s = list_ex (\<lambda>p. collides_with p (rect (bird s))) (pipes s)"

definition check_collisions :: "Session \<Rightarrow> Session" where
  "check_collisions s =
    (if pipe_collision s \<or> 0 \<ge> bird_y (bird s) \<or>
        bird_y (bird s) \<ge> of_int (WIN_HEIGHT - Bird_HEIGHT)
     then s\<lparr>game_done := True\<rparr> else s)"

text \<open>Lines 329-330: pipes that have left the screen are taken from the front.\<close>

fun popleft_offscreen :: "PipePair list \<Rightarrow> PipePair list" where
  "popleft_offscreen [] = []"
| "popleft_offscreen (p # ps) =
    (if pipe_x p \<le> - PipePair_WIDTH then popleft_offscreen ps else p # ps)"

text \<open>Lines 332-334: every pipe moves to the left.\<close>

definition move_pipes :: "PipePair list \<Rightarrow> PipePair list" where
  "move_pipes ps = map (\<lambda>p. p\<lparr>pipe_x := pipe_x p - FRAME_ANIMATION_WIDTH\<rparr>) ps"

text \<open>
  Lines 341-344: the pipes are visited in order; \<open>bx\<close> is \<^verbatim>\<open>bird.x\<close> and \<open>sc\<close>
  the score so far. The result is the pipes with their flags and the new score.
\<close>

fun update_score :: "int \<Rightarrow> PipePair list \<Rightarrow> int \<Rightarrow> PipePair list \<times> int" where
  "update_score bx [] sc = ([], sc)"
| "update_score bx (p # ps) sc =
    (if pipe_x p + PipePair_WIDTH < bx \<and> \<not> score_counted p then
       (let (qs, sc') = update_score bx ps (sc + 1)
        in (p\<lparr>score_counted := True\<rparr> # qs, sc'))
     else
       (let (qs, sc') = update_score bx ps sc in (p # qs, sc')))"

text \<open>
  Lines 321-334: the part of the loop body between \<^verbatim>\<open>if paused: continue\<close>
  and \<^verbatim>\<open>bird.update()\<close>, in the order of the source: collision check, removal,
  movement. The result is the state in which line 336 is reached.
\<close>

definition before_update :: "Session \<Rightarrow> Session" where
  "before_update s =
    (let s2 = check_collisions s;
         s3 = s2\<lparr>pipes := popleft_offscreen (pipes s2)\<rparr>
     in s3\<lparr>pipes := move_pipes (pipes s3)\<rparr>)"

text \<open>
  Lines 341-351: the part of the loop body after \<^verbatim>\<open>bird.update()\<close> has
  returned: the scoring loop and the increment of \<^verbatim>\<open>frame_clock\<close>.
\<close>

definition after_update :: "Session \<Rightarrow> Session" where
  "after_update s =
    (let (ps, sc) = update_score (bird_x (bird s)) (pipes s) (score s)
     in s\<lparr>pipes := ps, score := sc, frame_clock := frame_clock s + 1\<rparr>)"

text \<open>
  Lines 321-351: the part of the loop body after \<^verbatim>\<open>if paused: continue\<close>. An
  exception of \<^verbatim>\<open>bird.update()\<close> on line 336 ends it.
\<close>

definition active_part :: "Session \<Rightarrow> error + Session" where
  "active_part s =
    (let s4 = before_update s
     in case update (bird s4) of
          Inl e \<Rightarrow> Inl e
        | Inr b \<Rightarrow> Inr (after_update (s4\<lparr>bird := b\<rparr>)))"

text \<open>
  Lines 302-316: the state in which line 318 is reached. \<open>before\<close> are the inputs
  that are in the queue when line 303 posts, \<open>after\<close> those that arrive between the
  post and line 305.
\<close>

definition events_handled :: "input list \<Rightarrow> input list \<Rightarrow> int \<Rightarrow> Session \<Rightarrow> Session" where
  "events_handled before after r s =
    (let posted = (if posts_add_event s then [ADD_EVENT] else [])
     in handle_events r (map Input before @ posted @ map Input after) s)"

text \<open>One iteration of the loop (lines 298-351).\<close>

definition tick :: "input list \<Rightarrow> input list \<Rightarrow> int \<Rightarrow> Session \<Rightarrow> error + Session" where
  "tick before after r s =
    (let s1 = events_handled before after r s
     in if paused s1 then Inr s1 else active_part s1)"

text \<open>
  The loop \<^verbatim>\<open>while not done\<close>, run for the ticks whose inputs are given; the
  result is the state after them, or the exception that ended the program.
\<close>

fun main_loop :: "(input list \<times> input list \<times> int) list \<Rightarrow> Session \<Rightarrow> error + Session" where
  "main_loop [] s = Inr s"
| "main_loop ((before, after, r) # ins) s =
    (if game_done s then Inr s
     else (case tick before after r s of
             Inl e \<Rightarrow> Inl e
           | Inr s' \<Rightarrow> main_loop ins s'))"

definition main :: "(input list \<times> input list \<times> int) list \<Rightarrow> error + Session" where
  "main ins =
    (case main_bird of
       Inl e \<Rightarrow> Inl e
     | Inr b \<Rightarrow> main_loop ins (initial_session b))"

section \<open>Properties\<close>

subsection \<open>Bird.update\<close>

lemma load_global_steps_to_jump:
  "load_global ''steps_to_jump'' = Inl (NameError ''steps_to_jump'')"
  by (simp add: load_global_def module_globals_def builtin_names_def)

lemma update_NameError: "update b = Inl (NameError ''steps_to_jump'')"
  by (simp add: update_def load_global_steps_to_jump)

text \<open>
  C1. One call of \<^verbatim>\<open>update()\<close> is meant to be a single-tick transition (a jump
  step that lowers \<open>y\<close> by the eased amount and decrements \<open>steps_to_jump\<close>, or a
  drop by \<open>FRAME_DROP_HEIGHT\<close>). In the code, for every Bird state, the call raises
  \<^verbatim>\<open>NameError\<close> at the condition on line 81 and returns no bird at all.
\<close>

theorem update_raises_NameError:
  "update self = Inl (NameError ''steps_to_jump'')"
  by (rule update_NameError)

text \<open>
  C2. A full jump, \<open>JUMP_STEPS = 20\<close> calls of \<^verbatim>\<open>update()\<close> on a bird with
  \<open>steps_to_jump = 20\<close>, is meant to lower \<open>y\<close> by 100 pixels in total. In the code
  the first of the twenty calls raises \<^verbatim>\<open>NameError\<close>, so the run ends without
  any change of \<open>y\<close>.
\<close>

theorem full_jump_raises_NameError:
  "update_times 20 \<lparr>bird_x = 50, bird_y = 240, steps_to_jump = JUMP_STEPS\<rparr>
     = Inl (NameError ''steps_to_jump'')"
  by (simp add: numeral_eq_Suc update_NameError)

text \<open>
  The amounts that lines 84-85 subtract for \<open>steps_to_jump = 20, 19, \<dots>, 1\<close>: none
  is negative, the first is zero, and over the reals they sum to
  \<open>FRAME_JUMP_HEIGHT * (JUMP_STEPS - 1) = 95\<close>, since the cosines of the twenty
  fractions \<open>0/20, \<dots>, 19/20\<close> of \<open>pi\<close> cancel in pairs except for \<open>cos 0\<close>.
\<close>

lemma cos_frac_reflect:
  "cos (frac_jump_done (20 - s) * pi) = - cos (frac_jump_done s * pi)"
proof -
  have "frac_jump_done (20 - s) * pi = pi - frac_jump_done s * pi"
    by (simp add: frac_jump_done_def JUMP_STEPS_def field_simps)
  then show ?thesis by simp
qed

lemma cos_frac_sum_inner:
  "(\<Sum>s = 1..19. cos (frac_jump_done s * pi)) = 0"
proof -
  have "(\<Sum>s = 1..19. cos (frac_jump_done s * pi))
          = (\<Sum>s = 1..19. cos (frac_jump_done (20 - s) * pi))"
    by (rule sum.reindex_bij_witness [where i = "\<lambda>s. 20 - s" and j = "\<lambda>s. 20 - s"]) auto
  also have "\<dots> = - (\<Sum>s = 1..19. cos (frac_jump_done s * pi))"
    by (simp only: cos_frac_reflect sum_negf)
  finally show ?thesis by simp
qed

lemma cos_frac_sum:
  "(\<Sum>s = 1..20. cos (frac_jump_done s * pi)) = 1"
proof -
  have "{1..20::int} = insert 20 {1..19}" by auto
  then have "(\<Sum>s = 1..20. cos (frac_jump_done s * pi))
      = cos (frac_jump_done 20 * pi) + (\<Sum>s = 1..19. cos (frac_jump_done s * pi))"
    by simp
  also have "\<dots> = 1"
    unfolding cos_frac_sum_inner by (simp add: frac_jump_done_def JUMP_STEPS_def)
  finally show ?thesis .
qed

lemma jump_delta_sum:
  "(\<Sum>s = 1..20. jump_delta s) = 95"
proof -
  have "(\<Sum>s = 1..20. jump_delta s)
      = 5 * ((\<Sum>s = (1::int)..20. 1) - (\<Sum>s = 1..20. cos (frac_jump_done s * pi)))"
    by (simp add: jump_delta_def FRAME_JUMP_HEIGHT_def sum_distrib_left sum_subtractf)
  also have "\<dots> = 95"
    by (simp add: cos_frac_sum)
  finally show ?thesis .
qed

lemma jump_delta_nonneg: "0 \<le> jump_delta s"
  by (simp add: jump_delta_def FRAME_JUMP_HEIGHT_def)

lemma jump_delta_first: "jump_delta JUMP_STEPS = 0"
  by (simp add: jump_delta_def frac_jump_done_def)

subsection \<open>PipePair construction\<close>

lemma total_pipe_body_pieces_eq: "total_pipe_body_pieces = 10"
  by (simp add: total_pipe_body_pieces_def py_int_def WIN_HEIGHT_def Bird_HEIGHT_def
      PIECE_HEIGHT_def)

lemma total_pipe_body_pieces_div:
  "total_pipe_body_pieces = (WIN_HEIGHT - 3 * Bird_HEIGHT - 3 * PIECE_HEIGHT) div PIECE_HEIGHT"
  by (simp add: total_pipe_body_pieces_def py_int_def WIN_HEIGHT_def Bird_HEIGHT_def
      PIECE_HEIGHT_def)

lemma PipePair_init_fields:
  "top_pieces (PipePair_init r) = total_pipe_body_pieces - r + 1"
  "bottom_pieces (PipePair_init r) = r + 1"
  "pipe_x (PipePair_init r) = WIN_WIDTH"
  "score_counted (PipePair_init r) = False"
  by (simp_all add: PipePair_init_def Let_def)

lemmas gap_simps =
  gap_px_def top_height_px_def bottom_height_px_def PipePair_init_fields
  total_pipe_body_pieces_eq WIN_HEIGHT_def Bird_HEIGHT_def PIECE_HEIGHT_def

text \<open>
  C3, as stated: the gap of every constructed pair is exactly \<open>3 * Bird_HEIGHT = 96\<close>
  pixels. It fails for the pair built from the draw 4.
\<close>

theorem gap_not_three_bird_heights:
  "gap_px (PipePair_init 4) \<noteq> 3 * Bird_HEIGHT"
  by (simp add: gap_simps)

text \<open>
  C3, amended: for every constructed pair, whatever the draw, the gap between the
  bottom of the top pipe and the top of the bottom pipe, with the heights taken after
  the end pieces are added, is exactly \<open>3 * Bird_HEIGHT + PIECE_HEIGHT = 128\<close> pixels:
  of the three piece heights that line 162 sets aside, the two end pieces use two.
\<close>

theorem gap_is_128:
  "gap_px (PipePair_init r) = 3 * Bird_HEIGHT + PIECE_HEIGHT \<and>
   gap_px (PipePair_init r) = 128"
  by (simp add: gap_simps)

text \<open>
  C4. With \<open>total_pipe_body_pieces\<close> the integer quotient of line 159 and a draw
  between 1 and that number: after the end pieces are added, the two counts less 2 sum
  to \<open>total_pipe_body_pieces\<close>, each count is at least 1, and the gap is at least
  \<open>3 * Bird_HEIGHT\<close>.
\<close>

theorem PipePair_init_passable:
  assumes "1 \<le> r" and "r \<le> total_pipe_body_pieces"
  shows "total_pipe_body_pieces =
           (WIN_HEIGHT - 3 * Bird_HEIGHT - 3 * PIECE_HEIGHT) div PIECE_HEIGHT \<and>
         top_pieces (PipePair_init r) + bottom_pieces (PipePair_init r) - 2
           = total_pipe_body_pieces \<and>
         1 \<le> top_pieces (PipePair_init r) \<and>
         1 \<le> bottom_pieces (PipePair_init r) \<and>
         3 * Bird_HEIGHT \<le> gap_px (PipePair_init r)"
  using assms
  by (simp add: total_pipe_body_pieces_div [symmetric] gap_simps)

theorem PipePair_init_passable_witness:
  "(1::int) \<le> 4 \<and> 4 \<le> total_pipe_body_pieces \<and>
   top_pieces (PipePair_init 4) = 7 \<and> bottom_pieces (PipePair_init 4) = 5 \<and>
   top_pieces (PipePair_init 4) + bottom_pieces (PipePair_init 4) - 2
     = total_pipe_body_pieces \<and>
   3 * Bird_HEIGHT \<le> gap_px (PipePair_init 4)"
proof -
  have h1: "(1::int) \<le> 4" by simp
  have h2: "4 \<le> total_pipe_body_pieces" by (simp add: total_pipe_body_pieces_eq)
  show ?thesis
    using h1 h2 PipePair_init_passable [OF h1 h2]
    by (simp add: PipePair_init_fields total_pipe_body_pieces_eq)
qed

subsection \<open>The start of a session\<close>

lemma main_bird_second_argument:
  "py_int (of_int WIN_HEIGHT / 2 - of_int Bird_HEIGHT / 2) = 240"
  by (simp add: py_int_def WIN_HEIGHT_def Bird_HEIGHT_def)

lemma main_bird_raises: "main_bird = Inl (TypeError ''int object is not callable'')"
  by (simp add: main_bird_def call_int_def Let_def)

text \<open>
  C9. A session is meant to start with one bird at \<open>x = 50\<close>, \<open>y = 240\<close> and
  \<open>steps_to_jump = 2\<close>. In the code, whatever the inputs, \<^verbatim>\<open>main\<close> raises
  \<^verbatim>\<open>TypeError\<close> while it evaluates the arguments of the constructor call on
  lines 289-290: no bird is constructed and the loop is never entered.
\<close>

theorem main_raises_TypeError:
  "main ins = Inl (TypeError ''int object is not callable'')"
  by (simp add: main_def main_bird_raises)

subsection \<open>The termination check\<close>

lemma pipe_collision_iff:
  "pipe_collision s \<longleftrightarrow> (\<exists>p\<in>set (pipes s). collides_with p (rect (bird s)))"
  by (simp add: pipe_collision_def list_ex_iff)

lemma collides_with_iff:
  "collides_with p r \<longleftrightarrow>
     colliderect r \<lparr>rect_x = pipe_x p, rect_y = 0,
                    rect_w = PipePair_WIDTH, rect_h = top_height_px p\<rparr> \<or>
     colliderect r \<lparr>rect_x = pipe_x p, rect_y = WIN_HEIGHT - bottom_height_px p,
                    rect_w = PipePair_WIDTH, rect_h = bottom_height_px p\<rparr>"
  by (simp add: collides_with_def collidelist_def Let_def)

text \<open>
  C5. In a running session (\<open>done\<close> not yet set in this tick), the check on lines
  322-324 sets \<open>done\<close> exactly when the rectangle of the bird collides with one of
  the pipes, or \<open>bird.y \<le> 0\<close>, or \<open>bird.y \<ge> WIN_HEIGHT - Bird_HEIGHT\<close>. So a bird
  at \<open>y = 0\<close> or at \<open>y = 480\<close> ends the game, and a bird strictly between the two
  that collides with no pipe does not.
\<close>

theorem termination_check:
  assumes "\<not> game_done s"
  shows "game_done (check_collisions s) \<longleftrightarrow>
           (\<exists>p\<in>set (pipes s). collides_with p (rect (bird s))) \<or>
           bird_y (bird s) \<le> 0 \<or>
           bird_y (bird s) \<ge> of_int (WIN_HEIGHT - Bird_HEIGHT)"
  using assms by (simp add: check_collisions_def pipe_collision_iff)

theorem termination_check_witness:
  "\<not> game_done (initial_session \<lparr>bird_x = 50, bird_y = 0, steps_to_jump = 0\<rparr>) \<and>
   game_done (check_collisions
     (initial_session \<lparr>bird_x = 50, bird_y = 0, steps_to_jump = 0\<rparr>)) \<and>
   game_done (check_collisions
     (initial_session \<lparr>bird_x = 50, bird_y = 480, steps_to_jump = 0\<rparr>)) \<and>
   \<not> game_done (check_collisions
     (initial_session \<lparr>bird_x = 50, bird_y = 240, steps_to_jump = 0\<rparr>)) \<and>
   game_done (check_collisions
     ((initial_session \<lparr>bird_x = 50, bird_y = 200, steps_to_jump = 0\<rparr>)
        \<lparr>pipes := [(PipePair_init 4)\<lparr>pipe_x := 50\<rparr>]\<rparr>)) \<and>
   \<not> game_done (check_collisions
     ((initial_session \<lparr>bird_x = 50, bird_y = 240, steps_to_jump = 0\<rparr>)
        \<lparr>pipes := [(PipePair_init 4)\<lparr>pipe_x := 50\<rparr>]\<rparr>))"
proof -
  have h: "\<not> game_done (initial_session b)" for b
    by (simp add: initial_session_def)
  have h4: "\<not> game_done ((initial_session \<lparr>bird_x = 50, bird_y = 200, steps_to_jump = 0\<rparr>)
              \<lparr>pipes := [(PipePair_init 4)\<lparr>pipe_x := 50\<rparr>]\<rparr>)"
    by (simp add: initial_session_def)
  have h5: "\<not> game_done ((initial_session \<lparr>bird_x = 50, bird_y = 240, steps_to_jump = 0\<rparr>)
              \<lparr>pipes := [(PipePair_init 4)\<lparr>pipe_x := 50\<rparr>]\<rparr>)"
    by (simp add: initial_session_def)
  show ?thesis
    using termination_check [OF h, of "\<lparr>bird_x = 50, bird_y = 0, steps_to_jump = 0\<rparr>"]
      termination_check [OF h, of "\<lparr>bird_x = 50, bird_y = 480, steps_to_jump = 0\<rparr>"]
      termination_check [OF h, of "\<lparr>bird_x = 50, bird_y = 240, steps_to_jump = 0\<rparr>"]
      termination_check [OF h4] termination_check [OF h5]
    by (simp add: collides_with_def collidelist_def colliderect_def rect_def py_int_def
        top_height_px_def bottom_height_px_def PipePair_init_fields total_pipe_body_pieces_eq
        initial_session_def WIN_HEIGHT_def Bird_HEIGHT_def Bird_WIDTH_def PIECE_HEIGHT_def
        PipePair_WIDTH_def)
qed

subsection \<open>Paused ticks\<close>

lemma handle_events_inputs:
  "pipes (handle_events r (map Input ins) s) = pipes s \<and>
   score (handle_events r (map Input ins) s) = score s \<and>
   frame_clock (handle_events r (map Input ins) s) = frame_clock s \<and>
   bird_x (bird (handle_events r (map Input ins) s)) = bird_x (bird s) \<and>
   bird_y (bird (handle_events r (map Input ins) s)) = bird_y (bird s)"
  by (induction ins arbitrary: s) simp_all

lemma handle_events_paused:
  "KEYUP K_PAUSE \<notin> set ins \<Longrightarrow> KEYUP K_p \<notin> set ins \<Longrightarrow>
   paused (handle_events r (map Input ins) s) = paused s"
  by (induction ins arbitrary: s) auto

lemma paused_tick:
  assumes "paused s"
  shows "tick before after r s =
           (let s1 = handle_events r (map Input (before @ after)) s
            in if paused s1 then Inr s1 else active_part s1)"
  using assms by (simp add: tick_def events_handled_def posts_add_event_def Let_def)

text \<open>
  One tick that starts paused and is still paused when line 318 is reached: it posts
  no \<^verbatim>\<open>ADD_EVENT\<close>, handles its inputs and goes on to the next iteration.
\<close>

lemma paused_tick_unchanged:
  assumes "paused s" and "paused (handle_events r (map Input (before @ after)) s)"
  shows "\<exists>s'. tick before after r s = Inr s' \<and> paused s' \<and> pipes s' = pipes s \<and>
           score s' = score s \<and> frame_clock s' = frame_clock s \<and>
           bird_x (bird s') = bird_x (bird s) \<and> bird_y (bird s') = bird_y (bird s)"
  using assms handle_events_inputs [of r "before @ after" s]
  by (simp add: paused_tick Let_def)

text \<open>
  C7. From a paused state, any number of consecutive ticks whose inputs contain no
  pause toggle leave the session paused and change neither the pipes (no pipe moves,
  none is added, none removed), nor the position of the bird, nor the score, nor
  \<open>frame_clock\<close>; only the handling of the inputs acts on the state.
\<close>

theorem paused_ticks_change_nothing:
  assumes "paused s"
    and "\<forall>(before, after, r) \<in> set ins.
           KEYUP K_PAUSE \<notin> set (before @ after) \<and> KEYUP K_p \<notin> set (before @ after)"
  shows "\<exists>s'. main_loop ins s = Inr s' \<and> paused s' \<and> pipes s' = pipes s \<and>
           score s' = score s \<and> frame_clock s' = frame_clock s \<and>
           bird_x (bird s') = bird_x (bird s) \<and> bird_y (bird s') = bird_y (bird s)"
  using assms
proof (induction ins arbitrary: s)
  case Nil
  then show ?case by simp
next
  case (Cons i ins)
  obtain before after r where i: "i = (before, after, r)"
    by (cases i) auto
  show ?case
  proof (cases "game_done s")
    case True
    with Cons.prems i show ?thesis by simp
  next
    case False
    from Cons.prems i
    have nt: "KEYUP K_PAUSE \<notin> set (before @ after)" "KEYUP K_p \<notin> set (before @ after)"
      by auto
    have p1: "paused (handle_events r (map Input (before @ after)) s)"
      using handle_events_paused [OF nt] Cons.prems(1) by simp
    from paused_tick_unchanged [OF Cons.prems(1) p1]
    obtain s1 where s1: "tick before after r s = Inr s1" "paused s1" "pipes s1 = pipes s"
      "score s1 = score s" "frame_clock s1 = frame_clock s"
      "bird_x (bird s1) = bird_x (bird s)" "bird_y (bird s1) = bird_y (bird s)"
      by blast
    from Cons.prems(2)
    have rest: "\<forall>(before, after, r) \<in> set ins.
           KEYUP K_PAUSE \<notin> set (before @ after) \<and> KEYUP K_p \<notin> set (before @ after)"
      by simp
    from Cons.IH [OF s1(2) rest] obtain s' where
      "main_loop ins s1 = Inr s'" "paused s'" "pipes s' = pipes s1"
      "score s' = score s1" "frame_clock s' = frame_clock s1"
      "bird_x (bird s') = bird_x (bird s1)" "bird_y (bird s') = bird_y (bird s1)"
      by blast
    with s1 False i show ?thesis by simp
  qed
qed

theorem paused_ticks_change_nothing_witness:
  "paused ((initial_session \<lparr>bird_x = 50, bird_y = 240, steps_to_jump = 0\<rparr>)
            \<lparr>paused := True\<rparr>) \<and>
   main_loop [([KEYUP K_SPACE], [], 4), ([], [OTHER], 4)]
      ((initial_session \<lparr>bird_x = 50, bird_y = 240, steps_to_jump = 0\<rparr>)
         \<lparr>paused := True\<rparr>)
    = Inr ((initial_session \<lparr>bird_x = 50, bird_y = 240, steps_to_jump = 20\<rparr>)
             \<lparr>paused := True\<rparr>)"
proof -
  let ?s = "(initial_session \<lparr>bird_x = 50, bird_y = 240, steps_to_jump = 0\<rparr>)
              \<lparr>paused := True\<rparr>"
  let ?ins = "[([KEYUP K_SPACE], [], 4), ([], [OTHER], 4)]
                :: (input list \<times> input list \<times> int) list"
  have h1: "paused ?s" by simp
  have h2: "\<forall>(before, after, r) \<in> set ?ins.
      KEYUP K_PAUSE \<notin> set (before @ after) \<and> KEYUP K_p \<notin> set (before @ after)"
    by simp
  show ?thesis
    using h1 paused_ticks_change_nothing [OF h1 h2]
    by (simp add: initial_session_def tick_def events_handled_def posts_add_event_def
        JUMP_STEPS_def)
qed

subsection \<open>Active ticks\<close>

lemma active_part_raises: "active_part s = Inl (NameError ''steps_to_jump'')"
  by (simp add: active_part_def Let_def update_NameError)








subsection \<open>Removal and movement of the pipes\<close>

lemma popleft_offscreen_dropWhile:
  "popleft_offscreen ps = dropWhile (\<lambda>p. pipe_x p \<le> - PipePair_WIDTH) ps"
  by (induction ps) simp_all



lemma length_move_pipes: "length (move_pipes ps) = length ps"
  by (simp add: move_pipes_def)

text \<open>In every state, removal comes before movement (lines 329-333).\<close>

lemma before_update_pipes:
  "pipes (before_update s) = move_pipes (popleft_offscreen (pipes s))"
  by (simp add: before_update_def check_collisions_def Let_def)

text \<open>
  The order matters only in a state that no run of the loop reaches: were a pipe at
  \<open>x = -77\<close> when line 321 is reached, the removal would keep it and the movement
  would leave it in the collection at \<open>-80 = -WIDTH\<close>.
\<close>

lemma before_update_at_minus_77:
  "map pipe_x (pipes (before_update
     (s\<lparr>pipes := [(PipePair_init 4)\<lparr>pipe_x := - 77\<rparr>]\<rparr>))) = [- 80]"
  by (simp add: before_update_pipes move_pipes_def PipePair_WIDTH_def
      FRAME_ANIMATION_WIDTH_def)



subsection \<open>The score\<close>

lemma update_score_snd:
  "snd (update_score bx ps sc) =
     sc + int (length (filter (\<lambda>p. pipe_x p + PipePair_WIDTH < bx \<and> \<not> score_counted p) ps))"
  by (induction ps arbitrary: sc) (simp_all add: split_beta)


lemma update_score_mono: "sc \<le> snd (update_score bx ps sc)"
  by (simp add: update_score_snd)












subsection \<open>A jump while paused\<close>

lemma jump_while_paused:
  assumes "paused s"
    and "j = MOUSEBUTTONUP \<or> j = KEYUP K_UP \<or> j = KEYUP K_RETURN \<or> j = KEYUP K_SPACE"
  shows "tick [j] [] r s = Inr (s\<lparr>bird := (bird s)\<lparr>steps_to_jump := JUMP_STEPS\<rparr>\<rparr>)"
  using assms by (auto simp: tick_def events_handled_def posts_add_event_def Let_def)

text \<open>
  C10. A jump input in a paused tick is handled: it sets \<open>steps_to_jump\<close> to
  \<open>JUMP_STEPS = 20\<close> and changes nothing else, and the session stays paused. The jump
  is meant to begin with the tick that resumes the game; in the code that tick calls
  \<^verbatim>\<open>bird.update()\<close> and ends in \<^verbatim>\<open>NameError\<close>, so the jump is never made.
  Here the session is paused in its first tick (which also adds the first pipe), the
  second tick brings a press of the space bar, and the third the resuming key.
\<close>

theorem jump_during_pause_then_resume:
  "main_loop [([KEYUP K_p], [], 4), ([KEYUP K_SPACE], [], 4)]
     (initial_session \<lparr>bird_x = 50, bird_y = 240, steps_to_jump = 2\<rparr>)
     = Inr \<lparr>bird = \<lparr>bird_x = 50, bird_y = 240, steps_to_jump = 20\<rparr>,
            pipes = [PipePair_init 4], frame_clock = 0, score = 0,
            game_done = False, paused = True\<rparr> \<and>
   main_loop [([KEYUP K_p], [], 4), ([KEYUP K_SPACE], [], 4), ([KEYUP K_p], [], 4)]
     (initial_session \<lparr>bird_x = 50, bird_y = 240, steps_to_jump = 2\<rparr>)
     = Inl (NameError ''steps_to_jump'')"
  by (simp add: tick_def events_handled_def Let_def posts_add_event_def py_fmod_def
      active_part_raises initial_session_def JUMP_STEPS_def)

end
